theory Spec2Isabelle
  imports Main "HOL-Library.Char_ord"
begin

section \<open>Names and patterns: \<^verbatim>\<open>maya_mock/base/naming.py\<close>\<close>

text \<open>
  Strings are lists of (8-bit) characters. Two characters cannot be written inside a
  string literal and get a name: the backslash and the line feed.
\<close>

abbreviation bsl :: char where "bsl \<equiv> CHR 0x5C"

abbreviation nl :: char where "nl \<equiv> CHR 0x0A"

subsection \<open>String helpers of python\<close>

text \<open>\<^verbatim>\<open>s.replace(old, new)\<close> for a needle of one character.\<close>

definition str_replace :: "char \<Rightarrow> string \<Rightarrow> string \<Rightarrow> string" where
  "str_replace old new s = concat (map (\<lambda>c. if c = old then new else [c]) s)"

text \<open>\<^verbatim>\<open>s.startswith(pre)\<close>\<close>

definition startswith :: "string \<Rightarrow> string \<Rightarrow> bool" where
  "startswith s pre = (take (length pre) s = pre)"

subsection \<open>\<^verbatim>\<open>pattern_to_regex\<close>\<close>

text \<open>
  The function builds the text of a regular expression, step by step as the source does:
  \<^verbatim>\<open>*\<close> becomes \<^verbatim>\<open>[\w]*\<close>, then \<^verbatim>\<open>|\<close> becomes \<^verbatim>\<open>\|\<close>, then the test
  \<^verbatim>\<open>pattern.startswith("|")\<close> (on the text already escaped) chooses the prefix, and
  \<^verbatim>\<open>$\<close> is appended.
\<close>

definition pattern_to_regex :: "string option \<Rightarrow> string" where
  "pattern_to_regex pattern =
     (case pattern of
        None \<Rightarrow> ''.*''
      | Some p0 \<Rightarrow>
          (let p1 = str_replace (CHR ''*'') (CHR ''['' # bsl # ''w]*'') p0;
               p2 = str_replace (CHR ''|'') [bsl, CHR ''|''] p1;
               p3 = (if startswith p2 ''|'' then ''^'' @ p2
                     else ''(^|.*'' @ bsl # ''|)'' @ p2)
           in p3 @ ''$''))"

subsection \<open>\<^verbatim>\<open>is_valid_node_name\<close>\<close>

text \<open>
  \<^verbatim>\<open>return name and name not in BLACKLISTED_NODE_NAMES\<close>, read for its truth value.
  The constant \<^verbatim>\<open>BLACKLISTED_NODE_NAMES\<close> (of \<^verbatim>\<open>maya_mock.base.constants\<close>, not
  among the sources) is a parameter: a collection of reserved names.
\<close>

definition is_valid_node_name :: "string list \<Rightarrow> string \<Rightarrow> bool" where
  "is_valid_node_name BLACKLISTED_NODE_NAMES name =
     (name \<noteq> [] \<and> name \<notin> set BLACKLISTED_NODE_NAMES)"

section \<open>The regular expressions of python, as far as the module uses them\<close>

text \<open>
  \<^verbatim>\<open>naming.py\<close> hands its expressions to python's \<^verbatim>\<open>re\<close>. The fragment modelled
  here: literal characters, \<^verbatim>\<open>.\<close>, \<^verbatim>\<open>^\<close>, \<^verbatim>\<open>$\<close>, an escaped punctuation
  character, bracket classes made of \<^verbatim>\<open>\w\<close>, single characters and ranges, groups,
  the negative lookahead \<^verbatim>\<open>(?!...)\<close>, alternation and the greedy \<^verbatim>\<open>*\<close>. Word
  characters are the ASCII letters, the digits and the underscore: the class \<^verbatim>\<open>\w\<close> of
  python 2, and of python 3 on ASCII subjects (on a \<^verbatim>\<open>str\<close> python 3 also takes the
  letters and digits beyond ASCII).
\<close>

definition is_digit :: "char \<Rightarrow> bool" where
  "is_digit c = (CHR ''0'' \<le> c \<and> c \<le> CHR ''9'')"

definition is_alpha :: "char \<Rightarrow> bool" where
  "is_alpha c = ((CHR ''a'' \<le> c \<and> c \<le> CHR ''z'') \<or> (CHR ''A'' \<le> c \<and> c \<le> CHR ''Z''))"

definition is_word :: "char \<Rightarrow> bool" where
  "is_word c = (is_alpha c \<or> is_digit c \<or> c = CHR ''_'')"

datatype citem = CWord | CRange char char | CChar char

fun in_item :: "citem \<Rightarrow> char \<Rightarrow> bool" where
  "in_item CWord c = is_word c"
| "in_item (CRange lo hi) c = (lo \<le> c \<and> c \<le> hi)"
| "in_item (CChar d) c = (c = d)"

datatype rx =
    Lit char
  | Dot
  | Cls "citem list"
  | Bol
  | Eol
  | Epsilon
  | Seq rx rx
  | Alt rx rx
  | Star rx
  | NLook rx

subsection \<open>Reading the text of an expression\<close>

datatype tok =
    TLit char | TDot | TCls "citem list" | TBol | TEol
  | TOpen | TLook | TClose | TBar | TStar

datatype lexmode = Plain | Escape | Class "citem list" | ClassEscape "citem list"

text \<open>
  The lexer returns \<open>None\<close> on a text that \<^verbatim>\<open>re.compile\<close> rejects or that leaves the
  fragment (the quantifiers \<^verbatim>\<open>+ ? {\<close>, an escaped letter or digit other than
  \<^verbatim>\<open>\w\<close> in a class, a negated class, a group extension other than \<^verbatim>\<open>(?!\<close>).
\<close>

fun lexer :: "lexmode \<Rightarrow> string \<Rightarrow> tok list option" where
  "lexer Plain [] = Some []"
| "lexer m [] = None"
| "lexer Plain (c # cs) =
     (if c = bsl then lexer Escape cs
      else if c = CHR ''['' then lexer (Class []) cs
      else if c = CHR ''('' then
        (case cs of
           d # cs' \<Rightarrow>
             (if d = CHR ''?'' then
                (case cs' of
                   e # cs'' \<Rightarrow>
                     (if e = CHR ''!'' then map_option (Cons TLook) (lexer Plain cs'') else None)
                 | [] \<Rightarrow> None)
              else map_option (Cons TOpen) (lexer Plain cs))
         | [] \<Rightarrow> Some [TOpen])
      else if c = CHR ''+'' \<or> c = CHR ''?'' \<or> c = CHR ''{'' then None
      else map_option
        (Cons (if c = CHR ''.'' then TDot
               else if c = CHR ''^'' then TBol
               else if c = CHR ''$'' then TEol
               else if c = CHR '')'' then TClose
               else if c = CHR ''|'' then TBar
               else if c = CHR ''*'' then TStar
               else TLit c))
        (lexer Plain cs))"
| "lexer Escape (c # cs) =
     (if is_alpha c \<or> is_digit c then None else map_option (Cons (TLit c)) (lexer Plain cs))"
| "lexer (Class its) (c # cs) =
     (if c = CHR '']'' then
        (if its = [] then None else map_option (Cons (TCls its)) (lexer Plain cs))
      else if c = bsl then lexer (ClassEscape its) cs
      else if c = CHR ''^'' \<or> c = CHR ''['' \<or> c = CHR ''-'' then None
      else (case cs of
              d # e # cs' \<Rightarrow>
                (if d = CHR ''-'' \<and> e \<noteq> CHR '']''
                 then (if e = bsl \<or> e = CHR ''['' \<or> e < c then None
                       else lexer (Class (its @ [CRange c e])) cs')
                 else lexer (Class (its @ [CChar c])) cs)
            | _ \<Rightarrow> lexer (Class (its @ [CChar c])) cs))"
| "lexer (ClassEscape its) (c # cs) =
     (if c = CHR ''w'' then lexer (Class (its @ [CWord])) cs else None)"

text \<open>
  The parser keeps a stack of open groups; a frame holds the kind of the group, the
  alternatives already closed and the items of the current alternative, both latest
  first. A \<^verbatim>\<open>*\<close> with nothing to repeat, a repeated repeat and an unbalanced
  parenthesis are errors, as in python.
\<close>

datatype kind = Top | Group | Look

fun seq_of :: "rx list \<Rightarrow> rx" where
  "seq_of [] = Epsilon"
| "seq_of [r] = r"
| "seq_of (r # rs) = Seq r (seq_of rs)"

fun alt_of :: "rx list \<Rightarrow> rx" where
  "alt_of [] = Epsilon"
| "alt_of [r] = r"
| "alt_of (r # rs) = Alt r (alt_of rs)"

definition close_frame :: "rx list \<Rightarrow> rx list \<Rightarrow> rx" where
  "close_frame alts cur = alt_of (rev (seq_of (rev cur) # alts))"

fun repeatable :: "rx \<Rightarrow> bool" where
  "repeatable Bol = False"
| "repeatable Eol = False"
| "repeatable (Star r) = False"
| "repeatable (NLook r) = False"
| "repeatable r = True"

fun atom :: "tok \<Rightarrow> rx" where
  "atom (TLit c) = Lit c"
| "atom TDot = Dot"
| "atom (TCls its) = Cls its"
| "atom TBol = Bol"
| "atom TEol = Eol"
| "atom t = Epsilon"

fun parser :: "(kind \<times> rx list \<times> rx list) list \<Rightarrow> tok list \<Rightarrow> rx option" where
  "parser [(Top, alts, cur)] [] = Some (close_frame alts cur)"
| "parser st [] = None"
| "parser [] (t # ts) = None"
| "parser ((k, alts, cur) # st) (TOpen # ts) = parser ((Group, [], []) # (k, alts, cur) # st) ts"
| "parser ((k, alts, cur) # st) (TLook # ts) = parser ((Look, [], []) # (k, alts, cur) # st) ts"
| "parser ((k, alts, cur) # st) (TClose # ts) =
     (case st of
        [] \<Rightarrow> None
      | (k', alts', cur') # st' \<Rightarrow>
          (let r = close_frame alts cur
           in parser ((k', alts', (if k = Look then NLook r else r) # cur') # st') ts))"
| "parser ((k, alts, cur) # st) (TBar # ts) = parser ((k, seq_of (rev cur) # alts, []) # st) ts"
| "parser ((k, alts, cur) # st) (TStar # ts) =
     (case cur of
        [] \<Rightarrow> None
      | r # cur' \<Rightarrow> if repeatable r then parser ((k, alts, Star r # cur') # st) ts else None)"
| "parser ((k, alts, cur) # st) (t # ts) = parser ((k, alts, atom t # cur) # st) ts"

text \<open>
  \<^verbatim>\<open>re.compile(regex)\<close>. The result is \<open>None\<close> on a text that python rejects with
  \<^verbatim>\<open>re.error\<close> and also on a text that python compiles but that lies outside the
  fragment; nothing below is concluded from a \<open>None\<close>.
\<close>

definition re_compile :: "string \<Rightarrow> rx option" where
  "re_compile regex =
     (case lexer Plain regex of None \<Rightarrow> None | Some ts \<Rightarrow> parser [(Top, [], [])] ts)"

subsection \<open>Matching\<close>

text \<open>
  \<open>ends r s i\<close> lists the positions where a match of \<open>r\<close> that starts at position
  \<open>i\<close> of the subject \<open>s\<close> can end, in the order in which python's backtracking
  matcher tries them: the alternatives of \<^verbatim>\<open>|\<close> from left to right, the greedy star
  one more iteration first. \<^verbatim>\<open>.\<close> takes any character but a line feed; \<^verbatim>\<open>$\<close> holds
  at the end of the subject and before a line feed that ends it. An iteration of a star
  that consumes nothing is not repeated.
\<close>

function ends :: "rx \<Rightarrow> string \<Rightarrow> nat \<Rightarrow> nat list" where
  "ends (Lit c) s i = (if i < length s \<and> s ! i = c then [Suc i] else [])"
| "ends Dot s i = (if i < length s \<and> s ! i \<noteq> nl then [Suc i] else [])"
| "ends (Cls its) s i =
     (if i < length s \<and> list_ex (\<lambda>it. in_item it (s ! i)) its then [Suc i] else [])"
| "ends Bol s i = (if i = 0 then [i] else [])"
| "ends Eol s i = (if i = length s \<or> (Suc i = length s \<and> s ! i = nl) then [i] else [])"
| "ends Epsilon s i = [i]"
| "ends (Seq a b) s i = concat (map (ends b s) (ends a s i))"
| "ends (Alt a b) s i = ends a s i @ ends b s i"
| "ends (Star a) s i =
     concat (map (\<lambda>j. if i < j \<and> j \<le> length s then ends (Star a) s j else []) (ends a s i))
       @ [i]"
| "ends (NLook a) s i = (if ends a s i = [] then [i] else [])"
  by pat_completeness auto
termination
  by (relation "measures [\<lambda>(r, s, i). size r, \<lambda>(r, s, i). length s - i]") auto

lemmas ends_Star = ends.simps(9)

declare ends.simps(9) [simp del]

text \<open>
  \<^verbatim>\<open>re.match(r, s)\<close>: the match starts at position 0; the result is the end of the
  match the matcher finds first, \<open>None\<close> when there is none.
\<close>

definition re_match :: "rx \<Rightarrow> string \<Rightarrow> nat option" where
  "re_match r s = (case ends r s 0 of [] \<Rightarrow> None | e # es \<Rightarrow> Some e)"

text \<open>
  The search of \<^verbatim>\<open>re.sub\<close> (python 3.7 and later): the leftmost position \<open>b\<close> from
  \<open>start\<close> on where the expression matches, with the end of the first match there. After
  an empty match the next search must advance: it refuses a match that ends where the
  search starts.
\<close>

function re_search :: "rx \<Rightarrow> string \<Rightarrow> nat \<Rightarrow> bool \<Rightarrow> nat \<Rightarrow> (nat \<times> nat) option" where
  "re_search r s start must_advance b =
     (if length s < b then None
      else (case find (\<lambda>e. \<not> (must_advance \<and> e = start)) (ends r s b) of
              Some e \<Rightarrow> Some (b, e)
            | None \<Rightarrow> re_search r s start must_advance (Suc b)))"
  by pat_completeness auto
termination
  by (relation "measure (\<lambda>(r, s, start, must_advance, b). Suc (length s) - b)") auto

declare re_search.simps [simp del]

text \<open>
  \<^verbatim>\<open>re.sub\<close>, from position \<open>pos\<close> on: the text up to the next match is kept, the
  match is replaced, and the loop goes on behind it. The loop ends since a match ends
  behind the search's start or, being empty, forces the next search to advance.
\<close>

function re_sub_from :: "rx \<Rightarrow> string \<Rightarrow> string \<Rightarrow> nat \<Rightarrow> bool \<Rightarrow> string" where
  "re_sub_from r repl s pos must_advance =
     (case re_search r s pos must_advance pos of
        None \<Rightarrow> drop pos s
      | Some (b, e) \<Rightarrow>
          take (b - pos) (drop pos s) @ repl @ re_sub_from r repl s e (e = b))"
  by pat_completeness auto
termination
proof -
  have range: "j \<in> set (ends r s i) \<Longrightarrow> i \<le> j \<and> (i \<le> length s \<longrightarrow> j \<le> length s)"
    for r s i j
  proof (induction r s i arbitrary: j rule: ends.induct)
    case (7 a b s i)
    from "7.prems" obtain k where k: "k \<in> set (ends a s i)" and j: "j \<in> set (ends b s k)"
      by auto
    from "7.IH"(1) [OF k] "7.IH"(2) [OF k j] show ?case by auto
  next
    case (9 a s i)
    from "9.prems"
    have "j \<in> set (concat (map (\<lambda>j. if i < j \<and> j \<le> length s then ends (Star a) s j else [])
        (ends a s i)) @ [i])"
      by (subst (asm) ends_Star)
    then consider "j = i"
      | k where "k \<in> set (ends a s i)" "i < k" "k \<le> length s" "j \<in> set (ends (Star a) s k)"
      by (auto split: if_splits)
    then show ?case
    proof cases
      case 1
      then show ?thesis by simp
    next
      case 2
      from "9.IH"(2) [OF 2(1) _ 2(4)] 2(2,3) show ?thesis by auto
    qed
  qed (auto split: if_splits)
  have found: "re_search r s start must b0 = Some (b, e) \<Longrightarrow>
      b0 \<le> b \<and> b \<le> length s \<and> e \<in> set (ends r s b) \<and> \<not> (must \<and> e = start)"
    for r s start must b0 b e
  proof (induction r s start must b0 rule: re_search.induct)
    case (1 r s start must b0)
    show ?case
    proof (cases "find (\<lambda>e. \<not> (must \<and> e = start)) (ends r s b0)")
      case None
      with "1.prems"
      have nb: "\<not> length s < b0" and "re_search r s start must (Suc b0) = Some (b, e)"
        by (auto simp: re_search.simps [of r s start must b0] split: if_splits)
      with "1.IH" [OF nb None] show ?thesis by auto
    next
      case (Some e')
      with "1.prems" have "\<not> length s < b0" "b = b0" "e = e'"
        by (auto simp: re_search.simps [of r s start must b0] split: if_splits)
      with Some show ?thesis by (auto simp: find_Some_iff)
    qed
  qed
  show ?thesis
  proof (relation "measures [\<lambda>(r, repl, s, pos, must). Suc (length s) - pos,
                             \<lambda>(r, repl, s, pos, must). if must then 0 else 1]", goal_cases)
    case 1
    show ?case by simp
  next
    case (2 r repl s pos must x b e)
    then have "re_search r s pos must pos = Some (b, e)"
      by simp
    from found [OF this]
    have f: "pos \<le> b" "b \<le> length s" "e \<in> set (ends r s b)" "\<not> (must \<and> e = pos)"
      by auto
    from range [OF f(3)] f(2) have g: "b \<le> e" "e \<le> length s" by auto
    show ?case
    proof (cases "e = pos")
      case True
      with f g show ?thesis by auto
    next
      case False
      with f g show ?thesis by auto
    qed
  qed
qed

declare re_sub_from.simps [simp del]

text \<open>\<^verbatim>\<open>r.sub(repl, s)\<close>\<close>

definition re_sub :: "rx \<Rightarrow> string \<Rightarrow> string \<Rightarrow> string" where
  "re_sub r repl s = re_sub_from r repl s 0 False"

section \<open>The two users of the expressions\<close>

subsection \<open>\<^verbatim>\<open>conform_node_name\<close>\<close>

text \<open>
  \<^verbatim>\<open>_REGEX_INVALID_NODE_NAME_CHARS = re.compile(r"^([0-9])|(?!A-Za-z0-9:_)")\<close>, compiled
  when the module is loaded.
\<close>

definition REGEX_INVALID_NODE_NAME_CHARS :: "rx option" where
  "REGEX_INVALID_NODE_NAME_CHARS = re_compile ''^([0-9])|(?!A-Za-z0-9:_)''"

text \<open>\<^verbatim>\<open>return _REGEX_INVALID_NODE_NAME_CHARS.sub("", name)\<close>\<close>

definition conform_node_name :: "string \<Rightarrow> string option" where
  "conform_node_name name =
     map_option (\<lambda>r. re_sub r [] name) REGEX_INVALID_NODE_NAME_CHARS"

subsection \<open>The compiled matcher of a pattern\<close>

text \<open>
  Modelled from the spec: the caller of \<^verbatim>\<open>pattern_to_regex\<close> (the node's match against
  its path, in \<^verbatim>\<open>maya_mock.base\<close>) is not among the sources. Section 4.1: the pattern
  is compiled into a matcher over candidate paths. The matcher is
  \<^verbatim>\<open>re.match(pattern_to_regex(pattern), path)\<close>, read for its truth value; \<open>None\<close>
  when the expression does not compile.
\<close>

definition matches :: "string option \<Rightarrow> string \<Rightarrow> bool option" where
  "matches pattern path =
     map_option (\<lambda>r. re_match r path \<noteq> None) (re_compile (pattern_to_regex pattern))"

subsection \<open>Reference readings of a pattern\<close>





text \<open>
  The loosest reading, in which the run of word characters of a wildcard may be empty.
  It is no reading of the specification: it only bounds from above what the matcher
  accepts.
\<close>

fun wildcard_match_loose :: "string \<Rightarrow> string \<Rightarrow> bool" where
  "wildcard_match_loose [] t = (t = [])"
| "wildcard_match_loose (c # p) [] = (c = CHR ''*'' \<and> wildcard_match_loose p [])"
| "wildcard_match_loose (c # p) (x # t) =
     (if c = CHR ''*''
      then wildcard_match_loose p (x # t) \<or> (is_word x \<and> wildcard_match_loose (c # p) t)
      else x = c \<and> wildcard_match_loose p t)"



text \<open>The pieces of the expression that \<^verbatim>\<open>pattern_to_regex\<close> builds for such a pattern.\<close>

definition translate_char :: "char \<Rightarrow> string" where
  "translate_char c =
     (if c = CHR ''*'' then CHR ''['' # bsl # ''w]*''
      else if c = CHR ''|'' then [bsl, CHR ''|'']
      else [c])"




definition name_lookahead_rx :: rx where
  "name_lookahead_rx = seq_of (map Lit ''A-Za-z0-9:_'')"

section \<open>The scene-graph session behind the command layer\<close>

text \<open>
  The command layer (\<^verbatim>\<open>maya_mock/cmds/session.py\<close>, in two generations: the current one
  and the older one kept under \<^verbatim>\<open>python/\<close>) drives a \<^verbatim>\<open>MockedSession\<close>. The
  python objects are modelled as records; a reference that may be \<^verbatim>\<open>None\<close> is an
  \<open>option\<close>. Object identity (\<^verbatim>\<open>is\<close>) is equality of the records: a node carries its
  arena handle, a port is determined by its owner and its name.
\<close>

record node =
  ident :: nat
  node_name :: string
  node_type :: string

record 'v port =
  owner :: "node option"
  port_name :: string
  short_name :: "string option"
  port_type :: string
  port_value :: 'v
  user_defined :: bool
  nice_name :: "string option"

record 'v connection =
  src :: "'v port option"
  dst :: "'v port option"

text \<open>The logging sink receives the one message the command layer ever formats.\<close>

datatype 'v warning_msg = AlreadyConnected "'v port" "'v port"

record 'v session =
  nodes :: "node list"
  ports :: "'v port list"
  connections :: "'v connection list"
  selection :: "node list"
  warnings :: "'v warning_msg list"

text \<open>
  Every \<^verbatim>\<open>raise\<close> of the command layer is a constructor, named after its message:
  \<^item> \<open>AttributeNameRequired\<close>: \<^verbatim>\<open>RuntimeError("New attribute needs either a long (-ln)
    or short (-sn) attribute name.")\<close>
  \<^item> \<open>SourceNotFound q\<close>: \<^verbatim>\<open>RuntimeError("The source attribute %r cannot be found." % q)\<close>
  \<^item> \<open>DestinationNotFound q\<close>: the same for the destination
  \<^item> \<open>MayaCommandError\<close>: \<^verbatim>\<open>RuntimeError("Maya command error")\<close>
  \<^item> \<open>NoConnectionToDisconnect p q\<close>: \<^verbatim>\<open>RuntimeError("There is no connection from
    '{}' to '{}' to disconnect")\<close>
  \<^item> \<open>NoneHasNoAttribute\<close>: the \<^verbatim>\<open>AttributeError\<close> of a method call on \<^verbatim>\<open>None\<close>
  \<^item> \<open>NameCollision\<close>, \<open>DuplicateConnection\<close>: the failures of the session itself
\<close>

datatype 'v error =
    AttributeNameRequired
  | SourceNotFound string
  | DestinationNotFound string
  | MayaCommandError
  | NoConnectionToDisconnect "'v port" "'v port"
  | NoneHasNoAttribute
  | NameCollision
  | DuplicateConnection

text \<open>
  A call either returns or raises; the session it leaves behind is returned in both
  cases, since a python exception does not undo the mutations made before it.
\<close>

datatype ('v, 'a) outcome = Returns 'a | Raises "'v error"

type_synonym ('v, 'a) cmd = "('v, 'a) outcome \<times> 'v session"

subsection \<open>The session operations the command layer calls\<close>

text \<open>
  Modelled from the spec: the pattern-based lookups \<^verbatim>\<open>get_node_by_match\<close> and
  \<^verbatim>\<open>get_port_by_match\<close> of \<^verbatim>\<open>maya_mock.base.session.MockedSession\<close> are not among
  the sources. They are read-only queries returning a node, a port or \<^verbatim>\<open>None\<close>, and
  are taken as parameters, together with the default type tag of a new port.
\<close>

record 'v base =
  get_node_by_match :: "'v session \<Rightarrow> string \<Rightarrow> node option"
  get_port_by_match :: "'v session \<Rightarrow> string \<Rightarrow> 'v port option"
  default_port_type :: string

text \<open>
  Modelled from the spec: \<^verbatim>\<open>MockedSession.get_connection_by_ports\<close>, missing from the
  sources. Section 4.4: exact ordered-pair lookup; returns none if absent.
\<close>

definition get_connection_by_ports ::
  "'v session \<Rightarrow> 'v port option \<Rightarrow> 'v port option \<Rightarrow> 'v connection option" where
  "get_connection_by_ports s p q = find (\<lambda>c. src c = p \<and> dst c = q) (connections s)"

text \<open>
  Modelled from the spec: \<^verbatim>\<open>MockedSession.create_connection\<close>, missing from the
  sources. Section 4.4: fails with a duplicate-connection error if an identical ordered
  pair already exists; otherwise records the edge. No cycle check.
\<close>

definition create_connection ::
  "'v session \<Rightarrow> 'v port option \<Rightarrow> 'v port option \<Rightarrow> ('v, 'v connection) cmd" where
  "create_connection s p q =
     (case get_connection_by_ports s p q of
        Some c \<Rightarrow> (Raises DuplicateConnection, s)
      | None \<Rightarrow>
          (let c = \<lparr>src = p, dst = q\<rparr>
           in (Returns c, s\<lparr>connections := connections s @ [c]\<rparr>)))"

text \<open>
  Modelled from the spec: \<^verbatim>\<open>MockedSession.remove_connection\<close>, missing from the
  sources. Section 4.4: removes a specific edge.
\<close>

definition remove_connection :: "'v session \<Rightarrow> 'v connection \<Rightarrow> ('v, unit) cmd" where
  "remove_connection s c = (Returns (), s\<lparr>connections := remove1 c (connections s)\<rparr>)"

text \<open>
  Modelled from the spec: \<^verbatim>\<open>MockedSession.create_port\<close>, missing from the sources.
  Section 4.3: a new port owned by the node; fails with a name-collision error if the name
  or the short name already exists on the node; \<open>user_defined\<close> is set.
\<close>

definition create_port ::
  "'v session \<Rightarrow> node option \<Rightarrow> string \<Rightarrow> string \<Rightarrow> string option \<Rightarrow> 'v \<Rightarrow> string option
     \<Rightarrow> ('v, 'v port) cmd" where
  "create_port s nd nm ty sn v nn =
     (if list_ex (\<lambda>p. owner p = nd \<and>
            (port_name p = nm \<or> (sn \<noteq> None \<and> short_name p = sn))) (ports s)
      then (Raises NameCollision, s)
      else
        (let p = \<lparr>owner = nd, port_name = nm, short_name = sn, port_type = ty,
                  port_value = v, user_defined = True, nice_name = nn\<rparr>
         in (Returns p, s\<lparr>ports := ports s @ [p]\<rparr>)))"

text \<open>
  Modelled from the spec: \<^verbatim>\<open>MockedSession.warning\<close>, missing from the sources.
  Section 4.5: a logging hook; the message goes to the sink.
\<close>

definition warning :: "'v session \<Rightarrow> 'v warning_msg \<Rightarrow> 'v session" where
  "warning s m = s\<lparr>warnings := warnings s @ [m]\<rparr>"

subsection \<open>The command layer, current generation\<close>

text \<open>Python truthiness of an optional string: \<^verbatim>\<open>None\<close> and \<^verbatim>\<open>""\<close> are false.\<close>

definition truthy :: "string option \<Rightarrow> bool" where
  "truthy x = (case x of None \<Rightarrow> False | Some t \<Rightarrow> t \<noteq> [])"

text \<open>\<^verbatim>\<open>a or b\<close> on optional strings.\<close>

definition py_or :: "string option \<Rightarrow> string option \<Rightarrow> string option" where
  "py_or a b = (if truthy a then a else b)"

text \<open>\<^verbatim>\<open>_conform_connection_ports\<close>\<close>

definition conform_connection_ports ::
  "'v base \<Rightarrow> 'v session \<Rightarrow> string \<Rightarrow> string \<Rightarrow> 'v error + ('v port \<times> 'v port)" where
  "conform_connection_ports B s a b =
     (case get_port_by_match B s a of
        None \<Rightarrow> Inl (SourceNotFound a)
      | Some port_src \<Rightarrow>
          (case get_port_by_match B s b of
             None \<Rightarrow> Inl (DestinationNotFound b)
           | Some port_dst \<Rightarrow> Inr (port_src, port_dst)))"

text \<open>
  The loop of \<^verbatim>\<open>addAttr\<close> over the objects: each one is resolved and given the port; a
  failure of \<^verbatim>\<open>create_port\<close> propagates and keeps the ports created so far.
\<close>

fun addAttr_objects ::
  "'v base \<Rightarrow> 'v session \<Rightarrow> string list \<Rightarrow> string \<Rightarrow> string \<Rightarrow> string option \<Rightarrow> 'v
     \<Rightarrow> string option \<Rightarrow> ('v, unit) cmd" where
  "addAttr_objects B s [] nm ty sn v nn = (Returns (), s)"
| "addAttr_objects B s (object # objects) nm ty sn v nn =
     (case create_port s (get_node_by_match B s object) nm ty sn v nn of
        (Raises e, s') \<Rightarrow> (Raises e, s')
      | (Returns p, s') \<Rightarrow> addAttr_objects B s' objects nm ty sn v nn)"

text \<open>
  \<^verbatim>\<open>addAttr(objects, attributeType, dataType, defaultValue, longName, niceName, shortName)\<close>,
  after the decorators have mapped the short flags to the long ones.
\<close>

definition addAttr ::
  "'v base \<Rightarrow> 'v session \<Rightarrow> string list \<Rightarrow> string option \<Rightarrow> string option \<Rightarrow> 'v
     \<Rightarrow> string option \<Rightarrow> string option \<Rightarrow> string option \<Rightarrow> ('v, unit) cmd" where
  "addAttr B s objects attributeType dataType defaultValue longName niceName shortName =
     (if \<not> truthy longName \<and> \<not> truthy shortName then (Raises AttributeNameRequired, s)
      else
        (let nm = the (py_or longName shortName);
             ty = the (py_or (py_or attributeType dataType) (Some ''float''))
         in addAttr_objects B s objects nm ty shortName defaultValue niceName))"

text \<open>\<^verbatim>\<open>connectAttr(src, dst)\<close>\<close>

definition connectAttr :: "'v base \<Rightarrow> 'v session \<Rightarrow> string \<Rightarrow> string \<Rightarrow> ('v, unit) cmd" where
  "connectAttr B s a b =
     (case conform_connection_ports B s a b of
        Inl e \<Rightarrow> (Raises e, s)
      | Inr (p, q) \<Rightarrow>
          (case get_connection_by_ports s (Some p) (Some q) of
             Some c \<Rightarrow> (Raises MayaCommandError, warning s (AlreadyConnected p q))
           | None \<Rightarrow>
               (case create_connection s (Some p) (Some q) of
                  (Raises e, s') \<Rightarrow> (Raises e, s')
                | (Returns c, s') \<Rightarrow> (Returns (), s'))))"

text \<open>\<^verbatim>\<open>disconnectAttr(src, dst)\<close>\<close>

definition disconnectAttr :: "'v base \<Rightarrow> 'v session \<Rightarrow> string \<Rightarrow> string \<Rightarrow> ('v, unit) cmd" where
  "disconnectAttr B s a b =
     (case conform_connection_ports B s a b of
        Inl e \<Rightarrow> (Raises e, s)
      | Inr (p, q) \<Rightarrow>
          (case get_connection_by_ports s (Some p) (Some q) of
             None \<Rightarrow> (Raises (NoConnectionToDisconnect p q), s)
           | Some c \<Rightarrow> remove_connection s c))"

text \<open>\<^verbatim>\<open>select(names)\<close>: a comprehension over the stored nodes.\<close>

definition select :: "'v session \<Rightarrow> string list \<Rightarrow> ('v, unit) cmd" where
  "select s names = (Returns (), s\<lparr>selection := [n \<leftarrow> nodes s. node_name n \<in> set names]\<rparr>)"

subsection \<open>The command layer, older generation\<close>

text \<open>
  \<^verbatim>\<open>addAttr(*objects, **kwargs)\<close> reads \<^verbatim>\<open>longName\<close>, \<^verbatim>\<open>shortName\<close> and
  \<^verbatim>\<open>defaultValue\<close> from the keyword arguments and leaves the type tag and the nice
  name to the defaults of \<^verbatim>\<open>create_port\<close>.
\<close>

definition addAttr_python ::
  "'v base \<Rightarrow> 'v session \<Rightarrow> string list \<Rightarrow> 'v \<Rightarrow> string option \<Rightarrow> string option
     \<Rightarrow> ('v, unit) cmd" where
  "addAttr_python B s objects default_value name_long name_short =
     (if \<not> truthy name_long \<and> \<not> truthy name_short then (Raises AttributeNameRequired, s)
      else
        (let nm = the (if truthy name_long then name_long else name_short)
         in addAttr_objects B s objects nm (default_port_type B) name_short default_value None))"

text \<open>
  \<^verbatim>\<open>connectAttr\<close> does not check that the ports were found, and looks for the pair
  itself, comparing by identity.
\<close>

definition connectAttr_python ::
  "'v base \<Rightarrow> 'v session \<Rightarrow> string \<Rightarrow> string \<Rightarrow> ('v, unit) cmd" where
  "connectAttr_python B s a b =
     (let port_src = get_port_by_match B s a;
          port_dst = get_port_by_match B s b
      in if list_ex (\<lambda>c. src c = port_src \<and> dst c = port_dst) (connections s)
         then (Raises MayaCommandError, s)
         else
           (case create_connection s port_src port_dst of
              (Raises e, s') \<Rightarrow> (Raises e, s')
            | (Returns c, s') \<Rightarrow> (Returns (), s')))"

text \<open>
  \<^verbatim>\<open>disconnectAttr\<close> formats its message with \<^verbatim>\<open>port_src.__melobject__()\<close>, which fails
  on \<^verbatim>\<open>None\<close>.
\<close>

definition disconnectAttr_python ::
  "'v base \<Rightarrow> 'v session \<Rightarrow> string \<Rightarrow> string \<Rightarrow> ('v, unit) cmd" where
  "disconnectAttr_python B s a b =
     (let port_src = get_port_by_match B s a;
          port_dst = get_port_by_match B s b
      in case get_connection_by_ports s port_src port_dst of
           Some c \<Rightarrow> remove_connection s c
         | None \<Rightarrow>
             (case (port_src, port_dst) of
                (Some p, Some q) \<Rightarrow> (Raises (NoConnectionToDisconnect p q), s)
              | _ \<Rightarrow> (Raises NoneHasNoAttribute, s)))"

text \<open>
  \<^verbatim>\<open>select(names)\<close>: the inner generator \<^verbatim>\<open>_find_node(node)\<close> never reads its argument
  and yields every stored node whose name is in \<^verbatim>\<open>names\<close>; the comprehension runs it
  once for each element of \<^verbatim>\<open>names\<close>.
\<close>

definition find_node :: "'v session \<Rightarrow> string list \<Rightarrow> string \<Rightarrow> node list" where
  "find_node s names nd = [n \<leftarrow> nodes s. node_name n \<in> set names]"

definition select_python :: "'v session \<Rightarrow> string list \<Rightarrow> ('v, unit) cmd" where
  "select_python s names =
     (Returns (), s\<lparr>selection := concat (map (find_node s names) names)\<rparr>)"

subsection \<open>A small scene for concrete runs\<close>

text \<open>
  Two nodes \<open>a\<close> and \<open>b\<close>, a port \<open>x\<close> on the first and \<open>y\<close> on the second; the
  lookups find a node by its name and a port by its attribute name.
\<close>

definition base0 :: "nat base" where
  "base0 = \<lparr>get_node_by_match = (\<lambda>s q. find (\<lambda>n. node_name n = q) (nodes s)),
            get_port_by_match = (\<lambda>s q. find (\<lambda>p. port_name p = q) (ports s)),
            default_port_type = ''float''\<rparr>"

definition node_a :: node where
  "node_a = \<lparr>ident = 0, node_name = ''a'', node_type = ''transform''\<rparr>"

definition node_b :: node where
  "node_b = \<lparr>ident = 1, node_name = ''b'', node_type = ''transform''\<rparr>"

definition port_x :: "nat port" where
  "port_x = \<lparr>owner = Some node_a, port_name = ''x'', short_name = None, port_type = ''float'',
             port_value = 0, user_defined = True, nice_name = None\<rparr>"

definition port_y :: "nat port" where
  "port_y = \<lparr>owner = Some node_b, port_name = ''y'', short_name = None, port_type = ''float'',
             port_value = 0, user_defined = True, nice_name = None\<rparr>"

definition session0 :: "nat session" where
  "session0 = \<lparr>nodes = [node_a, node_b], ports = [port_x, port_y], connections = [],
               selection = [], warnings = []\<rparr>"

definition session1 :: "nat session" where
  "session1 = session0\<lparr>connections := [\<lparr>src = Some port_x, dst = Some port_y\<rparr>]\<rparr>"


section \<open>Properties of names and patterns\<close>

subsection \<open>Auxiliary facts\<close>

lemma str_replace_Nil [simp]: "str_replace old new [] = []"
  by (simp add: str_replace_def)

lemma str_replace_Cons:
  "str_replace old new (c # s) = (if c = old then new else [c]) @ str_replace old new s"
  by (simp add: str_replace_def)

lemma str_replace_append:
  "str_replace old new (a @ b) = str_replace old new a @ str_replace old new b"
  by (simp add: str_replace_def)

lemma translate_concat:
  "str_replace (CHR ''|'') [bsl, CHR ''|''] (str_replace (CHR ''*'') (CHR ''['' # bsl # ''w]*'') p)
     = concat (map translate_char p)"
proof (induction p)
  case Nil
  show ?case by simp
next
  case (Cons c p)
  then show ?case
    by (simp add: str_replace_Cons [of _ _ c p] str_replace_append translate_char_def)
       (simp add: str_replace_def)
qed

lemma translate_not_bar: "\<not> startswith (concat (map translate_char p)) ''|''"
proof (cases p)
  case Nil
  then show ?thesis by (simp add: startswith_def)
next
  case (Cons c q)
  then show ?thesis by (simp add: startswith_def translate_char_def)
qed

lemma pattern_to_regex_Some:
  "pattern_to_regex (Some p) = ''(^|.*'' @ bsl # ''|)'' @ concat (map translate_char p) @ ''$''"
  using translate_not_bar [of p]
  by (simp add: pattern_to_regex_def Let_def translate_concat del: append.simps)










lemma wildcard_match_loose_literal:
  "c \<noteq> CHR ''*'' \<Longrightarrow>
     wildcard_match_loose (c # p) t = (t \<noteq> [] \<and> hd t = c \<and> wildcard_match_loose p (tl t))"
  by (cases t) auto













lemma re_search_Some:
  "re_search r s start must b0 = Some (b, e) \<Longrightarrow>
     b0 \<le> b \<and> b \<le> length s \<and> e \<in> set (ends r s b) \<and> \<not> (must \<and> e = start)"
proof (induction r s start must b0 rule: re_search.induct)
  case (1 r s start must b0)
  show ?case
  proof (cases "find (\<lambda>e. \<not> (must \<and> e = start)) (ends r s b0)")
    case None
    with "1.prems" have nb: "\<not> length s < b0" and "re_search r s start must (Suc b0) = Some (b, e)"
      by (auto simp: re_search.simps [of r s start must b0] split: if_splits)
    with "1.IH" [OF nb None] show ?thesis by auto
  next
    case (Some e')
    with "1.prems" have "\<not> length s < b0" "b = b0" "e = e'"
      by (auto simp: re_search.simps [of r s start must b0] split: if_splits)
    with Some show ?thesis by (auto simp: find_Some_iff)
  qed
qed

lemma re_sub_from_empty_matches:
  assumes "\<forall>b. pos \<le> b \<longrightarrow> set (ends r s b) \<subseteq> {b}" and "repl = []"
  shows "re_sub_from r repl s pos must = drop pos s"
  using assms
proof (induction r repl s pos must rule: re_sub_from.induct)
  case (1 r repl s pos must)
  show ?case
  proof (cases "re_search r s pos must pos")
    case None
    then show ?thesis by (simp add: re_sub_from.simps [of r repl s pos must])
  next
    case (Some be)
    obtain b e where be: "be = (b, e)" by (cases be)
    from re_search_Some [OF Some [unfolded be]]
    have f: "pos \<le> b" "b \<le> length s" "e \<in> set (ends r s b)" by auto
    with "1.prems" have eb: "e = b" by auto
    have "\<forall>b'. e \<le> b' \<longrightarrow> set (ends r s b') \<subseteq> {b'}"
      using "1.prems" f(1) eb by auto
    from "1.IH" [OF Some be [symmetric] this "1.prems"(2)]
    have ih: "re_sub_from r repl s b True = drop b s" using eb by simp
    have "take (b - pos) (drop pos s) @ drop b s = drop pos s"
    proof -
      have "drop b s = drop (b - pos) (drop pos s)" using f(1) by simp
      then show ?thesis by (simp only: append_take_drop_id)
    qed
    then show ?thesis
      using Some be eb ih "1.prems"(2) by (subst re_sub_from.simps) simp
  qed
qed

lemma REGEX_INVALID_NODE_NAME_CHARS_eq:
  "REGEX_INVALID_NODE_NAME_CHARS
     = Some (Alt (Seq Bol (Cls [CRange (CHR ''0'') (CHR ''9'')])) (NLook name_lookahead_rx))"
  by (simp add: REGEX_INVALID_NODE_NAME_CHARS_def re_compile_def close_frame_def
      name_lookahead_rx_def)

lemma ends_invalid_chars:
  "ends (Alt (Seq Bol (Cls [CRange (CHR ''0'') (CHR ''9'')])) (NLook L)) s b
     = (if b = 0 \<and> s \<noteq> [] \<and> is_digit (hd s) then [Suc 0] else [])
       @ (if ends L s b = [] then [b] else [])"
  by (cases s) (auto simp: is_digit_def)

lemma conform_node_name_eq:
  "conform_node_name name = Some (if name \<noteq> [] \<and> is_digit (hd name) then tl name else name)"
proof -
  let ?R = "Alt (Seq Bol (Cls [CRange (CHR ''0'') (CHR ''9'')])) (NLook name_lookahead_rx)"
  have later: "\<forall>b. Suc 0 \<le> b \<longrightarrow> set (ends ?R name b) \<subseteq> {b}"
    unfolding ends_invalid_chars by auto
  have "re_sub ?R [] name = (if name \<noteq> [] \<and> is_digit (hd name) then tl name else name)"
  proof (cases "name \<noteq> [] \<and> is_digit (hd name)")
    case True
    then have "find (\<lambda>e. \<not> (False \<and> e = 0)) (ends ?R name 0) = Some (Suc 0)"
      unfolding ends_invalid_chars by simp
    then have "re_search ?R name 0 False 0 = Some (0, Suc 0)"
      by (simp add: re_search.simps [of ?R name 0 False 0])
    then have "re_sub ?R [] name = re_sub_from ?R [] name (Suc 0) False"
      by (simp add: re_sub_def re_sub_from.simps [of ?R _ name 0 False])
    also have "\<dots> = drop (Suc 0) name"
      using later by (rule re_sub_from_empty_matches) simp
    finally show ?thesis using True by (simp add: drop_Suc)
  next
    case False
    then have "\<forall>b. 0 \<le> b \<longrightarrow> set (ends ?R name b) \<subseteq> {b}"
      unfolding ends_invalid_chars by auto
    then have "re_sub_from ?R [] name 0 False = drop 0 name"
      by (rule re_sub_from_empty_matches) simp
    with False show ?thesis by (auto simp: re_sub_def)
  qed
  then show ?thesis
    by (simp add: conform_node_name_def REGEX_INVALID_NODE_NAME_CHARS_eq)
qed


subsection \<open>The validity check\<close>

lemma length_le_concat: "b \<in> set bl \<Longrightarrow> length b \<le> length (concat bl)"
  by (induction bl) auto

text \<open>
  Claim C2. The claim is that a name starting with a digit is rejected. The check only
  tests that the name is not empty and not reserved: \<^verbatim>\<open>"1abc"\<close> is accepted when it
  is not reserved, and whatever the reserved names are, some name with a leading digit is
  accepted.
\<close>

theorem is_valid_node_name_accepts_leading_digit:
  "is_valid_node_name [] ''1abc''
   \<and> (\<forall>bl. \<exists>name. name \<noteq> [] \<and> is_digit (hd name) \<and> is_valid_node_name bl name)"
proof (intro conjI allI)
  show "is_valid_node_name [] ''1abc''"
    by (simp add: is_valid_node_name_def)
next
  fix bl :: "string list"
  let ?n = "replicate (Suc (length (concat bl))) (CHR ''1'')"
  have "?n \<notin> set bl"
  proof
    assume "?n \<in> set bl"
    then have "length ?n \<le> length (concat bl)" by (rule length_le_concat)
    then show False by simp
  qed
  then have "?n \<noteq> [] \<and> is_digit (hd ?n) \<and> is_valid_node_name bl ?n"
    by (simp add: is_valid_node_name_def is_digit_def)
  then show "\<exists>name. name \<noteq> [] \<and> is_digit (hd name) \<and> is_valid_node_name bl name"
    by blast
qed

subsection \<open>Conforming a name\<close>

text \<open>
  Claim C9. \<^verbatim>\<open>conform_node_name\<close> returns its input without its first character when
  that is a digit, and unchanged otherwise: the second alternative of the expression, a
  lookahead, only matches the empty string, so nothing else is ever removed. In
  particular \<^verbatim>\<open>"a|b"\<close> comes back as it is, and of two leading digits the second
  stays.
\<close>

theorem conform_node_name_strips_one_digit:
  "conform_node_name name = Some (if name \<noteq> [] \<and> is_digit (hd name) then tl name else name)
   \<and> conform_node_name ''a|b'' = Some ''a|b''
   \<and> conform_node_name (c # d # r) = Some (if is_digit c then d # r else c # d # r)"
proof (intro conjI)
  show "conform_node_name name
      = Some (if name \<noteq> [] \<and> is_digit (hd name) then tl name else name)"
    by (rule conform_node_name_eq)
  show "conform_node_name ''a|b'' = Some ''a|b''"
    by (simp add: conform_node_name_eq is_digit_def)
  show "conform_node_name (c # d # r) = Some (if is_digit c then d # r else c # d # r)"
    by (simp add: conform_node_name_eq)
qed

theorem conform_node_name_strips_one_digit_witness:
  "conform_node_name ''12ab'' = Some ''2ab'' \<and> is_digit (hd ''2ab'')
   \<and> conform_node_name ''a;b/c'' = Some ''a;b/c''"
  using conform_node_name_strips_one_digit [of "''12ab''"]
    conform_node_name_strips_one_digit [of "''a;b/c''"]
  by (simp add: is_digit_def)

subsection \<open>Patterns\<close>

text \<open>
  Claim C1. The claim is that the wildcard needs at least one word character, so that
  \<^verbatim>\<open>"name*"\<close> does not match \<^verbatim>\<open>"name"\<close>. The expression built for \<^verbatim>\<open>"name*"\<close> is
  \<^verbatim>\<open>(^|.*\|)name[\w]*$\<close>, with a star, and it matches the path \<^verbatim>\<open>"name"\<close>, and
  the path \<^verbatim>\<open>"|name"\<close> of a node of that name at the root.
\<close>

theorem wildcard_matches_no_character:
  "pattern_to_regex (Some ''name*'') = ''(^|.*'' @ bsl # ''|)name['' @ bsl # ''w]*$''
   \<and> matches (Some ''name*'') ''name'' = Some True
   \<and> matches (Some ''name*'') ''|name'' = Some True"
proof (intro conjI)
  show "pattern_to_regex (Some ''name*'') = ''(^|.*'' @ bsl # ''|)name['' @ bsl # ''w]*$''"
    by (simp add: pattern_to_regex_def str_replace_def startswith_def)
  show "matches (Some ''name*'') ''name'' = Some True"
    by code_simp
  show "matches (Some ''name*'') ''|name'' = Some True"
    by code_simp
qed




text \<open>
  The two paths that the specification names for the absolute pattern \<^verbatim>\<open>"|a|b"\<close>
  behave as it says.
\<close>

lemma absolute_pattern_examples:
  "matches (Some ''|a|b'') ''|a|b'' = Some True
   \<and> matches (Some ''|a|b'') ''|x|a|b'' = Some False"
  by code_simp

text \<open>
  Claim C4. The claim is that the matcher of a pattern beginning with the separator is
  anchored at the start of the path. The test for the leading separator is made after the
  separators have been escaped, so it never holds: the expression built for \<^verbatim>\<open>"|a"\<close>
  is \<^verbatim>\<open>(^|.*\|)\|a$\<close>, with the prefix of a relative pattern, and it matches the path
  \<^verbatim>\<open>"|x||a"\<close>, where \<^verbatim>\<open>|a\<close> is not at the start. No pattern at all gets the
  anchored prefix.
\<close>

theorem absolute_pattern_not_anchored:
  "pattern_to_regex (Some ''|a'') = ''(^|.*'' @ bsl # ''|)'' @ bsl # ''|a$''
   \<and> matches (Some ''|a'') ''|x||a'' = Some True
   \<and> (\<forall>p. startswith (pattern_to_regex (Some p)) (''(^|.*'' @ bsl # ''|)''))"
proof (intro conjI allI)
  show "pattern_to_regex (Some ''|a'') = ''(^|.*'' @ bsl # ''|)'' @ bsl # ''|a$''"
    by (simp add: pattern_to_regex_def str_replace_def startswith_def)
  show "matches (Some ''|a'') ''|x||a'' = Some True"
    by code_simp
  show "startswith (pattern_to_regex (Some p)) (''(^|.*'' @ bsl # ''|)'')" for p
    unfolding pattern_to_regex_Some by (simp add: startswith_def)
qed

section \<open>Properties of the command layer\<close>

subsection \<open>Auxiliary facts\<close>

lemma get_connection_by_ports_None:
  "(get_connection_by_ports s p q = None)
     = (\<not> (\<exists>c\<in>set (connections s). src c = p \<and> dst c = q))"
  by (auto simp: get_connection_by_ports_def find_None_iff)

lemma find_snoc:
  "find P (xs @ [x])
     = (case find P xs of None \<Rightarrow> (if P x then Some x else None) | Some y \<Rightarrow> Some y)"
  by (induction xs) auto

lemma list_ex_connections:
  "list_ex (\<lambda>c. src c = p \<and> dst c = q) (connections s)
     = (\<exists>c\<in>set (connections s). src c = p \<and> dst c = q)"
  by (simp add: list_ex_iff)

lemma base0_session0_x: "get_port_by_match base0 session0 ''x'' = Some port_x"
  by (simp add: base0_def session0_def port_x_def)

lemma base0_session0_y: "get_port_by_match base0 session0 ''y'' = Some port_y"
  by (simp add: base0_def session0_def port_x_def port_y_def)

lemma base0_session1_x: "get_port_by_match base0 session1 ''x'' = Some port_x"
  by (simp add: base0_def session0_def session1_def port_x_def)

lemma base0_session1_y: "get_port_by_match base0 session1 ''y'' = Some port_y"
  by (simp add: base0_def session0_def session1_def port_x_def port_y_def)

subsection \<open>Connections\<close>

text \<open>
  Claim C5. When the two addresses resolve to ports \<open>p\<close> and \<open>q\<close>: if the ordered pair
  \<open>(p, q)\<close> is already connected, \<^verbatim>\<open>connectAttr\<close> raises (\<^verbatim>\<open>RuntimeError("Maya command error")\<close>)
  and the connections are what they were, in both generations of the command layer; if
  the pair is not connected, \<^verbatim>\<open>connectAttr\<close> returns, the edge \<open>(p, q)\<close> is appended to
  the connections, and the lookup of the pair finds it afterwards.
\<close>

theorem connectAttr_duplicate:
  assumes "get_port_by_match B s a = Some p" and "get_port_by_match B s b = Some q"
  shows "((\<exists>c\<in>set (connections s). src c = Some p \<and> dst c = Some q) \<longrightarrow>
            fst (connectAttr B s a b) = Raises MayaCommandError
          \<and> connections (snd (connectAttr B s a b)) = connections s
          \<and> connectAttr_python B s a b = (Raises MayaCommandError, s))
       \<and> (\<not> (\<exists>c\<in>set (connections s). src c = Some p \<and> dst c = Some q) \<longrightarrow>
            connectAttr B s a b
              = (Returns (), s\<lparr>connections := connections s @ [\<lparr>src = Some p, dst = Some q\<rparr>]\<rparr>)
          \<and> connectAttr_python B s a b = connectAttr B s a b
          \<and> get_connection_by_ports (snd (connectAttr B s a b)) (Some p) (Some q)
              = Some \<lparr>src = Some p, dst = Some q\<rparr>)"
proof (intro conjI impI)
  assume ex: "\<exists>c\<in>set (connections s). src c = Some p \<and> dst c = Some q"
  then obtain c where c: "get_connection_by_ports s (Some p) (Some q) = Some c"
    using get_connection_by_ports_None [of s "Some p" "Some q"]
    by (cases "get_connection_by_ports s (Some p) (Some q)") auto
  show "fst (connectAttr B s a b) = Raises MayaCommandError"
    using assms c by (simp add: connectAttr_def conform_connection_ports_def)
  show "connections (snd (connectAttr B s a b)) = connections s"
    using assms c by (simp add: connectAttr_def conform_connection_ports_def warning_def)
  show "connectAttr_python B s a b = (Raises MayaCommandError, s)"
    using assms ex by (simp add: connectAttr_python_def list_ex_connections)
next
  assume nex: "\<not> (\<exists>c\<in>set (connections s). src c = Some p \<and> dst c = Some q)"
  then have n: "get_connection_by_ports s (Some p) (Some q) = None"
    by (simp add: get_connection_by_ports_None)
  show r: "connectAttr B s a b
          = (Returns (), s\<lparr>connections := connections s @ [\<lparr>src = Some p, dst = Some q\<rparr>]\<rparr>)"
    using assms n
    by (simp add: connectAttr_def conform_connection_ports_def create_connection_def Let_def)
  show "connectAttr_python B s a b = connectAttr B s a b"
    using assms nex n unfolding r
    by (simp add: connectAttr_python_def list_ex_connections create_connection_def Let_def)
  have "find (\<lambda>c. src c = Some p \<and> dst c = Some q) (connections s) = None"
    using n by (simp add: get_connection_by_ports_def)
  then show "get_connection_by_ports (snd (connectAttr B s a b)) (Some p) (Some q)
          = Some \<lparr>src = Some p, dst = Some q\<rparr>"
    unfolding r by (simp add: get_connection_by_ports_def find_snoc)
qed

theorem connectAttr_duplicate_witness:
  "connectAttr base0 session0 ''x'' ''y'' = (Returns (), session1)
   \<and> fst (connectAttr base0 session1 ''x'' ''y'') = Raises MayaCommandError
   \<and> connections (snd (connectAttr base0 session1 ''x'' ''y'')) = connections session1
   \<and> connectAttr_python base0 session0 ''x'' ''y'' = (Returns (), session1)
   \<and> connectAttr_python base0 session1 ''x'' ''y'' = (Raises MayaCommandError, session1)"
  using connectAttr_duplicate [OF base0_session0_x base0_session0_y]
    connectAttr_duplicate [OF base0_session1_x base0_session1_y]
  by (simp add: session0_def session1_def)

text \<open>
  Claim C6. When the two addresses resolve to ports \<open>p\<close> and \<open>q\<close> and no connection
  goes from \<open>p\<close> to \<open>q\<close>, \<^verbatim>\<open>disconnectAttr\<close> raises (\<^verbatim>\<open>RuntimeError("There is no
  connection from ... to disconnect")\<close>) and leaves the session, hence the connection
  graph, as it was, in both generations of the command layer.
\<close>

theorem disconnectAttr_missing:
  assumes "get_port_by_match B s a = Some p" and "get_port_by_match B s b = Some q"
    and "\<not> (\<exists>c\<in>set (connections s). src c = Some p \<and> dst c = Some q)"
  shows "disconnectAttr B s a b = (Raises (NoConnectionToDisconnect p q), s)
       \<and> disconnectAttr_python B s a b = (Raises (NoConnectionToDisconnect p q), s)"
proof -
  have n: "get_connection_by_ports s (Some p) (Some q) = None"
    using assms(3) by (simp add: get_connection_by_ports_None)
  show ?thesis
    using assms(1,2) n
    by (simp add: disconnectAttr_def disconnectAttr_python_def conform_connection_ports_def)
qed

theorem disconnectAttr_missing_witness:
  "disconnectAttr base0 session0 ''x'' ''y''
     = (Raises (NoConnectionToDisconnect port_x port_y), session0)
   \<and> disconnectAttr_python base0 session0 ''x'' ''y''
     = (Raises (NoConnectionToDisconnect port_x port_y), session0)"
  using disconnectAttr_missing [OF base0_session0_x base0_session0_y]
  by (simp add: session0_def)

subsection \<open>Attributes\<close>

text \<open>
  Claim C7. When neither a long name nor a short name is supplied (each is \<^verbatim>\<open>None\<close>, or
  empty), \<^verbatim>\<open>addAttr\<close> raises (\<^verbatim>\<open>RuntimeError("New attribute needs either a long (-ln)
  or short (-sn) attribute name.")\<close>) and the session it leaves is the one it was given: no
  port has been created. This holds in both generations of the command layer.
\<close>

theorem addAttr_requires_name:
  assumes "\<not> truthy longName" and "\<not> truthy shortName"
  shows "addAttr B s objects attributeType dataType defaultValue longName niceName shortName
           = (Raises AttributeNameRequired, s)
       \<and> addAttr_python B s objects defaultValue longName shortName
           = (Raises AttributeNameRequired, s)"
  using assms by (simp add: addAttr_def addAttr_python_def)

theorem addAttr_requires_name_witness:
  "\<not> truthy None
   \<and> addAttr base0 session0 [''a''] None None 0 None None None
       = (Raises AttributeNameRequired, session0)
   \<and> addAttr_python base0 session0 [''a''] 0 None None
       = (Raises AttributeNameRequired, session0)"
  using addAttr_requires_name [of None None base0 session0 "[''a'']" None None 0 None]
  by (simp add: truthy_def)

subsection \<open>Selection\<close>

text \<open>
  Claim C8. After \<^verbatim>\<open>select(names)\<close> the selection is the list of the stored nodes whose
  name is in \<^verbatim>\<open>names\<close>, in the order of the store (current generation), and holds
  exactly those nodes (older generation); the selection held before the call does not
  enter the result.
\<close>

theorem select_replaces_selection:
  "selection (snd (select s names)) = [n \<leftarrow> nodes s. node_name n \<in> set names]
   \<and> set (selection (snd (select_python s names))) = set [n \<leftarrow> nodes s. node_name n \<in> set names]
   \<and> selection (snd (select (s\<lparr>selection := sel\<rparr>) names)) = selection (snd (select s names))
   \<and> selection (snd (select_python (s\<lparr>selection := sel\<rparr>) names))
       = selection (snd (select_python s names))"
  by (auto simp: select_def select_python_def find_node_def [abs_def])

theorem select_replaces_selection_witness:
  "selection (snd (select (session0\<lparr>selection := [node_a]\<rparr>) [''b''])) = [node_b]
   \<and> set (selection (snd (select_python (session0\<lparr>selection := [node_a]\<rparr>) [''b'']))) = {node_b}"
  using select_replaces_selection [of "session0\<lparr>selection := [node_a]\<rparr>" "[''b'']" "[]"]
  by (simp add: session0_def node_a_def node_b_def)

text \<open>
  Claim C10. The claim is that the two generations of \<^verbatim>\<open>select\<close> leave the same
  selection. They do not: the older one leaves what the current one leaves, once for
  every element of \<^verbatim>\<open>names\<close>. On the scene with the nodes \<open>a\<close> and \<open>b\<close> and the names
  \<^verbatim>\<open>["a", "b"]\<close>, the current one selects \<open>a, b\<close> and the older one \<open>a, b, a, b\<close>.
\<close>

theorem select_generations_differ:
  "selection (snd (select session0 [''a'', ''b''])) = [node_a, node_b]
   \<and> selection (snd (select_python session0 [''a'', ''b'']))
       = [node_a, node_b, node_a, node_b]
   \<and> (\<forall>s names. selection (snd (select_python (s :: nat session) names))
         = concat (replicate (length names) (selection (snd (select s names)))))"
proof (intro conjI allI)
  show "selection (snd (select session0 [''a'', ''b''])) = [node_a, node_b]"
    by (simp add: select_def session0_def node_a_def node_b_def)
  show "selection (snd (select_python session0 [''a'', ''b'']))
      = [node_a, node_b, node_a, node_b]"
    by (simp add: select_python_def find_node_def session0_def node_a_def node_b_def)
  show "selection (snd (select_python s names))
      = concat (replicate (length names) (selection (snd (select s names))))"
    for s :: "nat session" and names
    by (simp add: select_def select_python_def find_node_def [abs_def] map_replicate_const)
qed

end
